theory Spec2Isabelle
  imports Complex_Main
begin

section \<open>JavaScript values\<close>

text \<open>
  Both scripts compute with JavaScript numbers and strings. A number is an IEEE double:
  \<open>NaN\<close>, one of the two infinities, or a finite value, which is modelled by the real
  number it denotes (the order of finite doubles is the order of these reals, and the
  two zeros are equal under every comparison the scripts make). \<open>parseFloat\<close> and
  \<open>parseInt\<close> belong to the platform: the model starts from the number they return,
  which is \<open>NaN\<close> for an empty or unparsable field.
\<close>

datatype jsnum = NaN | NegInf | Fin real | PosInf

text \<open>
  The other values the scripts meet: \<open>undefined\<close> (a missing property), \<open>null\<close> (the
  initial \<open>mmrc\<close>), and the functions and objects that every object literal inherits
  from \<open>Object.prototype\<close>, all collapsed into \<open>Builtin\<close>.
\<close>

datatype jsval = Undefined | Null | Number jsnum | Builtin

definition isNaN :: "jsnum \<Rightarrow> bool" where
  "isNaN x = (x = NaN)"

text \<open>The abstract relational comparison \<open>x < y\<close>; \<open>None\<close> is its result \<open>undefined\<close>.\<close>

fun IsLessThan :: "jsnum \<Rightarrow> jsnum \<Rightarrow> bool option" where
  "IsLessThan NaN _ = None"
| "IsLessThan _ NaN = None"
| "IsLessThan PosInf _ = Some False"
| "IsLessThan _ NegInf = Some False"
| "IsLessThan NegInf _ = Some True"
| "IsLessThan _ PosInf = Some True"
| "IsLessThan (Fin a) (Fin b) = Some (a < b)"

definition js_lt :: "jsnum \<Rightarrow> jsnum \<Rightarrow> bool" where
  \<comment> \<open>\<open>a < b\<close>\<close>
  "js_lt a b = (IsLessThan a b = Some True)"

definition js_ge :: "jsnum \<Rightarrow> jsnum \<Rightarrow> bool" where
  \<comment> \<open>\<open>a >= b\<close>: true when \<open>a < b\<close> is false, false when it is true or undefined\<close>
  "js_ge a b = (IsLessThan a b = Some False)"

fun ToNumber :: "jsval \<Rightarrow> jsnum" where
  "ToNumber Undefined = NaN"
| "ToNumber Null = Fin 0"
| "ToNumber (Number n) = n"
| "ToNumber Builtin = NaN"
  \<comment> \<open>an inherited function converts through its source text, \<open>Object.prototype\<close>
      through \<open>[object Object]\<close>: neither string is a numeral\<close>

fun ToBoolean :: "jsval \<Rightarrow> bool" where
  "ToBoolean Undefined = False"
| "ToBoolean Null = False"
| "ToBoolean (Number n) = (n \<noteq> NaN \<and> n \<noteq> Fin 0)"
| "ToBoolean Builtin = True"

definition js_or :: "jsval \<Rightarrow> jsval \<Rightarrow> jsval" where
  \<comment> \<open>\<open>a || b\<close>\<close>
  "js_or a b = (if ToBoolean a then a else b)"

definition Math_max :: "jsnum \<Rightarrow> jsnum \<Rightarrow> jsnum" where
  "Math_max a b =
     (if a = NaN \<or> b = NaN then NaN else if IsLessThan a b = Some True then b else a)"

text \<open>
  Property lookup \<open>obj[key]\<close> on an object literal whose own properties are numbers: an
  own property first, then the properties of \<open>Object.prototype\<close>, else \<open>undefined\<close>.
\<close>

definition objectPrototype_keys :: "string list" where
  "objectPrototype_keys =
     [''constructor'', ''hasOwnProperty'', ''isPrototypeOf'', ''propertyIsEnumerable'',
      ''toLocaleString'', ''toString'', ''valueOf'', ''__proto__'',
      ''__defineGetter__'', ''__defineSetter__'', ''__lookupGetter__'', ''__lookupSetter__'']"

definition js_get :: "(string \<times> jsnum) list \<Rightarrow> string \<Rightarrow> jsval" where
  "js_get obj key =
     (case map_of obj key of
        Some v \<Rightarrow> Number v
      | None \<Rightarrow> if key \<in> set objectPrototype_keys then Builtin else Undefined)"

text \<open>\<open>Array.prototype.join\<close> on an array of strings.\<close>

fun join :: "string \<Rightarrow> string list \<Rightarrow> string" where
  "join sep [] = []"
| "join sep [x] = x"
| "join sep (x # y # ys) = x @ sep @ join sep (y # ys)"

text \<open>
  The literal \<open>0.7\<close> is the double nearest to seven tenths, which lies just below it.
\<close>

definition js_0_7 :: real where
  "js_0_7 = 3152519739159347 / 4503599627370496"

section \<open>The page and the report\<close>

text \<open>
  A report is built by appending template literals. It is kept as the list of its
  pieces: literal text, an interpolated value (converted by \<open>ToString\<close>), and
  \<open>x.toFixed(2)\<close>. Text is a list of bytes, the UTF-8 encoding of the source literal.
\<close>

datatype piece = Lit string | Val jsval | Fixed2 jsnum

type_synonym html = "piece list"

text \<open>Calls into the platform that leave no trace in the modelled fields are logged.\<close>

datatype effect =
    Alert string
  | ScrollIntoView string
  | AddEventListener string string string

subsection \<open>Characters outside ASCII that occur in the literals\<close>

definition nbsp :: string where
  \<comment> \<open>U+00A0\<close>
  "nbsp = [CHR 0xC2, CHR 0xA0]"

definition sub_one :: string where
  \<comment> \<open>U+2081\<close>
  "sub_one = [CHR 0xE2, CHR 0x82, CHR 0x81]"

definition geq_sign :: string where
  \<comment> \<open>U+2265\<close>
  "geq_sign = [CHR 0xE2, CHR 0x89, CHR 0xA5]"

definition leq_sign :: string where
  \<comment> \<open>U+2264\<close>
  "leq_sign = [CHR 0xE2, CHR 0x89, CHR 0xA4]"

definition en_dash :: string where
  \<comment> \<open>U+2013\<close>
  "en_dash = [CHR 0xE2, CHR 0x80, CHR 0x93]"

definition right_quote :: string where
  \<comment> \<open>U+2019\<close>
  "right_quote = [CHR 0xE2, CHR 0x80, CHR 0x99]"

definition nb_hyphen :: string where
  \<comment> \<open>U+2011\<close>
  "nb_hyphen = [CHR 0xE2, CHR 0x80, CHR 0x91]"

definition left_lenticular :: string where
  \<comment> \<open>U+3010\<close>
  "left_lenticular = [CHR 0xE3, CHR 0x80, CHR 0x90]"

definition dagger :: string where
  \<comment> \<open>U+2020\<close>
  "dagger = [CHR 0xE2, CHR 0x80, CHR 0xA0]"

definition right_lenticular :: string where
  \<comment> \<open>U+3011\<close>
  "right_lenticular = [CHR 0xE3, CHR 0x80, CHR 0x91]"

definition micro_sign :: string where
  \<comment> \<open>U+00B5\<close>
  "micro_sign = [CHR 0xC2, CHR 0xB5]"

section \<open>COPD staging\<close>

subsection \<open>Texts of \<open>computeCOPD\<close>\<close>

definition alert_required :: string where
  \<open>alert_required = ''Please fill in all required fields.''\<close>

definition gold1_name :: string where
  \<open>gold1_name = ''GOLD'' @ nbsp @ ''1 (Mild)''\<close>

definition gold1_description :: string where
  \<open>gold1_description = ''Airflow obstruction is mild with FEV'' @ sub_one @ '' '' @ geq_sign @ ''80% predicted.''\<close>

definition gold2_name :: string where
  \<open>gold2_name = ''GOLD'' @ nbsp @ ''2 (Moderate)''\<close>

definition gold2_description :: string where
  \<open>gold2_description = ''Airflow obstruction is moderate with FEV'' @ sub_one @ '' between 50% and 79% predicted.''\<close>

definition gold3_name :: string where
  \<open>gold3_name = ''GOLD'' @ nbsp @ ''3 (Severe)''\<close>

definition gold3_description :: string where
  \<open>gold3_description = ''Airflow obstruction is severe with FEV'' @ sub_one @ '' between 30% and 49% predicted.''\<close>

definition gold4_name :: string where
  \<open>gold4_name = ''GOLD'' @ nbsp @ ''4 (Very Severe)''\<close>

definition gold4_description :: string where
  \<open>gold4_description = ''Airflow obstruction is very severe with FEV'' @ sub_one @ '' <30% predicted.''\<close>

definition groupE_name :: string where
  \<open>groupE_name = ''Group'' @ nbsp @ ''E''\<close>

definition groupE_description :: string where
  \<open>groupE_description = ''High risk for exacerbations: two or more moderate exacerbations or at least one hospitalization in the past year.''\<close>

definition groupB_name :: string where
  \<open>groupB_name = ''Group'' @ nbsp @ ''B''\<close>

definition groupB_description :: string where
  \<open>groupB_description = ''Higher symptom burden: mMRC score '' @ geq_sign @ ''2 with 0'' @ en_dash @ ''1 moderate exacerbations and no hospitalization in the past year.''\<close>

definition groupA_name :: string where
  \<open>groupA_name = ''Group'' @ nbsp @ ''A''\<close>

definition groupA_description :: string where
  \<open>groupA_description = ''Lower symptom burden: mMRC score 0'' @ en_dash @ ''1 with 0'' @ en_dash @ ''1 moderate exacerbations and no hospitalization in the past year.''\<close>

text \<open>The three paragraphs of the second version (lines 85 to 107 of part 000).\<close>

definition recommendation_heading :: string where
  \<comment> \<open>lines 86, 93 and 101\<close>
  \<open>recommendation_heading = ''<p><strong>GOLD'' @ nbsp @ ''2025 recommended treatment:</strong></p><ul>''\<close>

definition recommendation_A_1 :: string where
  \<comment> \<open>line 87\<close>
  \<open>recommendation_A_1 = ''<li>Offer bronchodilator therapy to relieve breathlessness; this may be a short'' @ nb_hyphen @ ''acting or long'' @ nb_hyphen @ ''acting bronchodilator. A long'' @ nb_hyphen @ ''acting bronchodilator (LABA or LAMA) is preferred if available and affordable except in patients with very occasional breathlessness.</li>''\<close>

definition recommendation_A_2 :: string where
  \<comment> \<open>line 88\<close>
  \<open>recommendation_A_2 = ''<li>Continue treatment if benefit is documented; reassess regularly.</li>''\<close>

definition recommendation_A_3 :: string where
  \<comment> \<open>line 89\<close>
  \<open>recommendation_A_3 = ''<li>Rescue short'' @ nb_hyphen @ ''acting bronchodilators should be prescribed to all patients for immediate symptom relief'' @ left_lenticular @ ''525439884052066'' @ dagger @ ''L1210-L1211'' @ right_lenticular @ ''.</li>''\<close>

definition recommendation_A :: string where
  "recommendation_A =
     recommendation_heading @ recommendation_A_1 @ recommendation_A_2 @ recommendation_A_3 @ ''</ul>''"

definition recommendation_B_1 :: string where
  \<comment> \<open>line 94\<close>
  \<open>recommendation_B_1 = ''<li>Initiate therapy with a combination of a long'' @ nb_hyphen @ ''acting beta agonist and a long'' @ nb_hyphen @ ''acting muscarinic antagonist (LABA+LAMA); clinical trials demonstrate that LABA+LAMA is superior to LAMA alone for symptom control.</li>''\<close>

definition recommendation_B_2 :: string where
  \<comment> \<open>line 95\<close>
  \<open>recommendation_B_2 = ''<li>If LABA+LAMA is not appropriate, there is no evidence to recommend one class of long'' @ nb_hyphen @ ''acting bronchodilator over another; select either LABA or LAMA based on the patient'' @ right_quote @ ''s perception of symptom relief.</li>''\<close>

definition recommendation_B_3 :: string where
  \<comment> \<open>line 96\<close>
  \<open>recommendation_B_3 = ''<li>Investigate and manage comorbidities that may contribute to symptoms.</li>''\<close>

definition recommendation_B_4 :: string where
  \<comment> \<open>line 97\<close>
  \<open>recommendation_B_4 = ''<li>Rescue short'' @ nb_hyphen @ ''acting bronchodilators should be prescribed to all patients for immediate symptom relief'' @ left_lenticular @ ''525439884052066'' @ dagger @ ''L1210-L1211'' @ right_lenticular @ ''.</li>''\<close>

definition recommendation_B :: string where
  "recommendation_B =
     recommendation_heading @ recommendation_B_1 @ recommendation_B_2 @ recommendation_B_3 @ recommendation_B_4 @ ''</ul>''"

definition recommendation_E_1 :: string where
  \<comment> \<open>line 102\<close>
  \<open>recommendation_E_1 = ''<li>A dual bronchodilator combination (LABA+LAMA) is the preferred initial therapy.</li>''\<close>

definition recommendation_E_2 :: string where
  \<comment> \<open>line 103\<close>
  \<open>recommendation_E_2 = ''<li>Do not initiate LABA+ICS without LAMA; if an inhaled corticosteroid is indicated (e.g., blood eosinophil count '' @ geq_sign @ ''300 cells/'' @ micro_sign @ ''L or concomitant asthma), use triple therapy with LABA+LAMA+ICS, which is superior to LABA+ICS.</li>''\<close>

definition recommendation_E_3 :: string where
  \<comment> \<open>line 104\<close>
  \<open>recommendation_E_3 = ''<li>Consider triple therapy at diagnosis when eosinophil count is high ('' @ geq_sign @ ''300'' @ nbsp @ ''cells/'' @ micro_sign @ ''L).</li>''\<close>

definition recommendation_E_4 :: string where
  \<comment> \<open>line 105\<close>
  \<open>recommendation_E_4 = ''<li>Patients with COPD and co'' @ nb_hyphen @ ''existing asthma should be treated like asthma patients, making inhaled corticosteroids mandatory.</li>''\<close>

definition recommendation_E_5 :: string where
  \<comment> \<open>line 106\<close>
  \<open>recommendation_E_5 = ''<li>Rescue short'' @ nb_hyphen @ ''acting bronchodilators should be prescribed to all patients for immediate symptom relief'' @ left_lenticular @ ''525439884052066'' @ dagger @ ''L1210-L1211'' @ right_lenticular @ ''.</li>''\<close>

definition recommendation_E :: string where
  "recommendation_E =
     recommendation_heading @ recommendation_E_1 @ recommendation_E_2 @ recommendation_E_3 @ recommendation_E_4 @ recommendation_E_5 @ ''</ul>''"

definition downloadCopdPdfBtn_html :: string where
  \<open>downloadCopdPdfBtn_html = ''<button type="button" id="downloadCopdPdfBtn">Download PDF Report</button>''\<close>
subsection \<open>The page of the COPD form\<close>

text \<open>
  The fields \<open>computeCOPD\<close> reads and writes. The four numeric fields hold what
  \<open>parseFloat\<close> (ratio, FEV1 percent) and \<open>parseInt\<close> (the two counts) return on the
  field's text; a radio button of the group \<open>mmrc\<close> is the pair of its checked flag and
  of \<open>parseInt\<close> of its value; \<open>inhalerCheckboxes\<close> are the values of the checked
  inhaler boxes, in document order. \<open>downloadCopdPdfBtn_found\<close> says whether
  \<open>getElementById\<close> finds the download button once the report is in the result area
  (line 131 of part 000).
\<close>

record copd_document =
  ratio_input :: jsnum
  fev1percent_input :: jsnum
  exacerbations_input :: jsnum
  hospitalizations_input :: jsnum
  mmrcInputs :: "(bool \<times> jsnum) list"
  inhalerCheckboxes :: "string list"
  copdFrequency :: string
  downloadCopdPdfBtn_found :: bool
  copdForm_display :: string
  copdResult_innerHTML :: html
  copdResult_display :: string
  effects :: "effect list"

text \<open>
  The function returns nothing; the model returns, beside the new page, the local
  variables that hold the classification (\<open>None\<close> when the function returns at line 27).
\<close>

record copd_locals =
  goldGrade :: string
  goldDescription :: string
  abeGroup :: string
  abeDescription :: string

text \<open>
  Lines 16 to 19, the same in both versions: \<open>mmrc\<close> starts as \<open>null\<close> and every checked
  radio button overwrites it.
\<close>

definition checked_mmrc :: "(bool \<times> jsnum) list \<Rightarrow> jsval" where
  "checked_mmrc radios =
     fold (\<lambda>radio mmrc. if fst radio then Number (snd radio) else mmrc) radios Null"

text \<open>Lines 67 to 75, the same in both versions.\<close>

definition diagnosticCriterion :: "jsnum \<Rightarrow> html" where
  "diagnosticCriterion ratio =
     (if js_lt ratio (Fin js_0_7)
      then [Lit ''<p><strong>Diagnostic Criterion:</strong> Your FEV<sub>1</sub>/FVC ratio is '',
            Fixed2 ratio,
            Lit '', which is below the 0.70 threshold used to confirm airflow obstruction in COPD.</p>'']
      else [Lit ''<p><strong>Diagnostic Criterion:</strong> Your FEV<sub>1</sub>/FVC ratio is '',
            Fixed2 ratio,
            Lit (''. Values '' @ geq_sign @ ''0.70 are generally considered normal; consult a healthcare professional for interpretation.</p>'')])"

subsection \<open>\<open>computeCOPD\<close> of \<open>src/copd.js\<close>\<close>

definition computeCOPD :: "copd_document \<Rightarrow> copd_locals option \<times> copd_document" where
  "computeCOPD doc =
    (let ratio = ratio_input doc;
         fev1percent = fev1percent_input doc;
         exacerbations = exacerbations_input doc;
         hospitalizations = hospitalizations_input doc;
         mmrc = checked_mmrc (mmrcInputs doc);
         inhalers = inhalerCheckboxes doc;
         frequency = copdFrequency doc
     in
       if isNaN ratio \<or> isNaN fev1percent \<or> isNaN exacerbations \<or> isNaN hospitalizations
          \<or> mmrc = Null
       then (None, doc\<lparr>effects := effects doc @ [Alert alert_required]\<rparr>)
       else
         (let (goldGrade, goldDescription) =
                (if js_ge fev1percent (Fin 80) then (gold1_name, gold1_description)
                 else if js_ge fev1percent (Fin 50) then (gold2_name, gold2_description)
                 else if js_ge fev1percent (Fin 30) then (gold3_name, gold3_description)
                 else (gold4_name, gold4_description));
              (abeGroup, abeDescription) =
                (if js_ge hospitalizations (Fin 1) \<or> js_ge exacerbations (Fin 2)
                 then (groupE_name, groupE_description)
                 else if js_ge (ToNumber mmrc) (Fin 2) then (groupB_name, groupB_description)
                 else (groupA_name, groupA_description));
              resultHtml =
                [Lit ''<h2>Results</h2>'']
                @ diagnosticCriterion ratio
                @ [Lit ''<p><strong>GOLD Grade:</strong> '', Lit goldGrade, Lit ''</p>'']
                @ [Lit ''<p>'', Lit goldDescription, Lit ''</p>'']
                @ [Lit ''<p><strong>ABE Group:</strong> '', Lit abeGroup, Lit ''</p>'']
                @ [Lit ''<p>'', Lit abeDescription, Lit ''</p>'']
                @ [Lit ''<p><strong>FEV<sub>1</sub>% provided:</strong> '', Val (Number fev1percent), Lit ''%</p>'']
                @ [Lit ''<p><strong>mMRC score:</strong> '', Val mmrc, Lit ''</p>'']
                @ [Lit ''<p><strong>Number of moderate exacerbations:</strong> '', Val (Number exacerbations), Lit ''</p>'']
                @ [Lit ''<p><strong>Number of hospitalizations:</strong> '', Val (Number hospitalizations), Lit ''</p>'']
                @ [Lit ''<p><strong>Inhalers used:</strong> '',
                   Lit (if inhalers \<noteq> [] then join '', '' inhalers else ''None selected''),
                   Lit ''</p>'']
                @ (if frequency \<noteq> []
                   then [Lit ''<p><strong>Inhaler use frequency:</strong> '', Lit frequency, Lit '' times per week</p>'']
                   else [])
          in (Some \<lparr>goldGrade = goldGrade, goldDescription = goldDescription,
                     abeGroup = abeGroup, abeDescription = abeDescription\<rparr>,
              doc\<lparr>copdForm_display := ''none'',
                  copdResult_innerHTML := resultHtml,
                  copdResult_display := ''block'',
                  effects := effects doc @ [ScrollIntoView ''copdResult'']\<rparr>)))"

subsection \<open>\<open>computeCOPD\<close> of \<open>src/unnamed/part_000\<close>\<close>

text \<open>
  The second version adds the treatment recommendation (lines 83 to 108 and 117 to 120)
  and the button that downloads the report (lines 121, 122 and 130 to 134).
\<close>

record copd_locals_part000 = copd_locals +
  copdRecommendation :: string

definition computeCOPD_part000 ::
  "copd_document \<Rightarrow> copd_locals_part000 option \<times> copd_document" where
  "computeCOPD_part000 doc =
    (let ratio = ratio_input doc;
         fev1percent = fev1percent_input doc;
         exacerbations = exacerbations_input doc;
         hospitalizations = hospitalizations_input doc;
         mmrc = checked_mmrc (mmrcInputs doc);
         inhalers = inhalerCheckboxes doc;
         frequency = copdFrequency doc
     in
       if isNaN ratio \<or> isNaN fev1percent \<or> isNaN exacerbations \<or> isNaN hospitalizations
          \<or> mmrc = Null
       then (None, doc\<lparr>effects := effects doc @ [Alert alert_required]\<rparr>)
       else
         (let (goldGrade, goldDescription) =
                (if js_ge fev1percent (Fin 80) then (gold1_name, gold1_description)
                 else if js_ge fev1percent (Fin 50) then (gold2_name, gold2_description)
                 else if js_ge fev1percent (Fin 30) then (gold3_name, gold3_description)
                 else (gold4_name, gold4_description));
              (abeGroup, abeDescription) =
                (if js_ge hospitalizations (Fin 1) \<or> js_ge exacerbations (Fin 2)
                 then (groupE_name, groupE_description)
                 else if js_ge (ToNumber mmrc) (Fin 2) then (groupB_name, groupB_description)
                 else (groupA_name, groupA_description));
              copdRecommendation =
                (if abeGroup = ''Group'' @ nbsp @ ''A'' then [] @ recommendation_A
                 else if abeGroup = ''Group'' @ nbsp @ ''B'' then [] @ recommendation_B
                 else if abeGroup = ''Group'' @ nbsp @ ''E'' then [] @ recommendation_E
                 else []);
              resultHtml =
                [Lit ''<h2>Results</h2>'']
                @ diagnosticCriterion ratio
                @ [Lit ''<p><strong>GOLD Grade:</strong> '', Lit goldGrade, Lit ''</p>'']
                @ [Lit ''<p>'', Lit goldDescription, Lit ''</p>'']
                @ [Lit ''<p><strong>ABE Group:</strong> '', Lit abeGroup, Lit ''</p>'']
                @ [Lit ''<p>'', Lit abeDescription, Lit ''</p>'']
                @ [Lit ''<p><strong>FEV<sub>1</sub>% provided:</strong> '', Val (Number fev1percent), Lit ''%</p>'']
                @ [Lit ''<p><strong>mMRC score:</strong> '', Val mmrc, Lit ''</p>'']
                @ [Lit ''<p><strong>Number of moderate exacerbations:</strong> '', Val (Number exacerbations), Lit ''</p>'']
                @ [Lit ''<p><strong>Number of hospitalizations:</strong> '', Val (Number hospitalizations), Lit ''</p>'']
                @ [Lit ''<p><strong>Inhalers used:</strong> '',
                   Lit (if inhalers \<noteq> [] then join '', '' inhalers else ''None selected''),
                   Lit ''</p>'']
                @ (if frequency \<noteq> []
                   then [Lit ''<p><strong>Inhaler use frequency:</strong> '', Lit frequency, Lit '' times per week</p>'']
                   else [])
                @ (if copdRecommendation \<noteq> [] then [Lit copdRecommendation] else [])
                @ [Lit downloadCopdPdfBtn_html]
          in (Some \<lparr>goldGrade = goldGrade, goldDescription = goldDescription,
                     abeGroup = abeGroup, abeDescription = abeDescription,
                     copdRecommendation = copdRecommendation\<rparr>,
              doc\<lparr>copdForm_display := ''none'',
                  copdResult_innerHTML := resultHtml,
                  copdResult_display := ''block'',
                  effects := effects doc @
                    [ScrollIntoView ''copdResult''] @
                    (if downloadCopdPdfBtn_found doc
                     then [AddEventListener ''downloadCopdPdfBtn'' ''click''
                             ''downloadCopdReportPDF'']
                     else [])\<rparr>)))"

section \<open>Asthma staging\<close>

subsection \<open>Texts of \<open>computeAsthmaStage\<close>\<close>

definition stage1_name :: string where
  \<open>stage1_name = ''Intermittent (Mild) Asthma''\<close>

definition stage1_description :: string where
  \<open>stage1_description = ''Symptoms occur infrequently ('' @ leq_sign @ ''2 days/week), with minimal nighttime waking ('' @ leq_sign @ ''2 times/month) and no limitation of activities. Lung function (FEV'' @ sub_one @ '') is typically '' @ geq_sign @ ''80% predicted.''\<close>

definition stage2_name :: string where
  \<open>stage2_name = ''Mild Persistent Asthma''\<close>

definition stage2_description :: string where
  \<open>stage2_description = ''Symptoms are present on 3'' @ en_dash @ ''6 days per week or 3'' @ en_dash @ ''4 nights per month. There may be minor limitation of activity and FEV'' @ sub_one @ '' is '' @ geq_sign @ ''80% predicted.''\<close>

definition stage3_name :: string where
  \<open>stage3_name = ''Moderate Persistent Asthma''\<close>

definition stage3_description :: string where
  \<open>stage3_description = ''Symptoms occur daily and nighttime awakenings '' @ geq_sign @ ''5 times per month. There is some limitation of activities and lung function is between 60'' @ en_dash @ ''80% predicted.''\<close>

definition stage4_name :: string where
  \<open>stage4_name = ''Severe Persistent Asthma''\<close>

definition stage4_description :: string where
  \<open>stage4_description = ''Symptoms are present throughout the day, nighttime symptoms occur often, activities are extremely limited, and lung function is '' @ leq_sign @ ''60% predicted.''\<close>

definition stage_default_name :: string where
  \<open>stage_default_name = ''Intermittent (Mild) Asthma''\<close>

definition stage_default_description :: string where
  \<open>stage_default_description = ''Symptoms occur infrequently with minimal impact on daily activities.''\<close>

definition downloadPdfBtn_html :: string where
  \<open>downloadPdfBtn_html = ''<button type="button" id="downloadPdfBtn">Download PDF Report</button>''\<close>
subsection \<open>The page of the asthma form\<close>

text \<open>
  \<open>fev1_input\<close> is what \<open>parseFloat\<close> returns on the FEV1 field (\<open>NaN\<close> when it is
  left empty); the three selects give their value as it is. The first version reads, for
  every identifier of \<open>inhalerList\<close>, the checkbox \<open>inh_\<close>\<dots> (checked flag and value) and
  the field \<open>freq_\<close>\<dots> (its value), either of which may be missing from the page; the second
  version reads the checked inhaler boxes and one frequency field.
  \<open>downloadPdfBtn_found\<close> says whether \<open>getElementById\<close> finds the download button once
  the report is in the result area (line 197 of \<open>src/asthma.js\<close>).
\<close>

record asthma_document =
  fev1_input :: jsnum
  daytime_value :: string
  nighttime_value :: string
  activity_value :: string
  inh_checkbox :: "string \<Rightarrow> (bool \<times> string) option"
  freq_input :: "string \<Rightarrow> string option"
  inhalers_checked :: "string list"
  frequency_value :: string
  downloadPdfBtn_found :: bool
  asthmaForm_display :: string
  asthmaResult_innerHTML :: html
  asthmaResult_display :: string
  asthma_effects :: "effect list"

record asthma_locals =
  severity :: jsnum
  stageName :: string
  stageDescription :: string

definition inhalerList :: "string list" where
  "inhalerList = [''SABA'', ''LABA'', ''ICS'', ''ICS_LABA'', ''LAMA'', ''other'']"

text \<open>The three object literals, the same in both versions.\<close>

definition daytimeMap :: "(string \<times> jsnum) list" where
  "daytimeMap = [(''<=2'', Fin 1), (''3-6'', Fin 2), (''daily'', Fin 3), (''throughout'', Fin 4)]"

definition nighttimeMap :: "(string \<times> jsnum) list" where
  "nighttimeMap = [(''<=2'', Fin 1), (''3-4'', Fin 2), (''5+'', Fin 3), (''often'', Fin 4)]"

definition activityMap :: "(string \<times> jsnum) list" where
  "activityMap = [(''none'', Fin 1), (''minor'', Fin 2), (''some'', Fin 3), (''extreme'', Fin 4)]"

subsection \<open>\<open>computeAsthmaStage\<close> of \<open>src/asthma.js\<close>\<close>

definition computeAsthmaStage :: "asthma_document \<Rightarrow> asthma_locals \<times> asthma_document" where
  "computeAsthmaStage doc =
    (let fev1 = fev1_input doc;
         daytime = daytime_value doc;
         nighttime = nighttime_value doc;
         activity = activity_value doc;
         inhalerData =
           fold (\<lambda>id inhalerData.
                   case inh_checkbox doc (''inh_'' @ id) of
                     Some (checked, cb_value) \<Rightarrow>
                       if checked
                       then inhalerData @
                              [(cb_value,
                                case freq_input doc (''freq_'' @ id) of
                                  Some freq_value \<Rightarrow> if freq_value \<noteq> [] then freq_value else []
                                | None \<Rightarrow> [])]
                       else inhalerData
                   | None \<Rightarrow> inhalerData)
             inhalerList [];
         severity0 = Fin 1;
         severity1 =
           (if \<not> isNaN fev1
            then (if js_lt fev1 (Fin 60) then Math_max severity0 (Fin 4)
                  else if js_lt fev1 (Fin 80) then Math_max severity0 (Fin 3)
                  else severity0)
            else severity0);
         severity2 = Math_max severity1 (ToNumber (js_or (js_get daytimeMap daytime) (Number (Fin 1))));
         severity3 = Math_max severity2 (ToNumber (js_or (js_get nighttimeMap nighttime) (Number (Fin 1))));
         severity = Math_max severity3 (ToNumber (js_or (js_get activityMap activity) (Number (Fin 1))));
         (stageName, stageDescription) =
           (if severity = Fin 1 then (stage1_name, stage1_description)
            else if severity = Fin 2 then (stage2_name, stage2_description)
            else if severity = Fin 3 then (stage3_name, stage3_description)
            else if severity = Fin 4 then (stage4_name, stage4_description)
            else (stage_default_name, stage_default_description));
         resultHtml =
           [Lit ''<h2>Results</h2>'']
           @ [Lit ''<p><strong>Estimated Asthma Severity:</strong> '', Lit stageName, Lit ''</p>'']
           @ [Lit ''<p>'', Lit stageDescription, Lit ''</p>'']
           @ (if \<not> isNaN fev1
              then [Lit ''<p><strong>FEV<sub>1</sub>% provided:</strong> '', Val (Number fev1), Lit ''%</p>'']
              else [])
           @ (if inhalerData \<noteq> []
              then [Lit ''<p><strong>Inhalers used:</strong></p><ul>'']
                   @ concat (map (\<lambda>item.
                        let freqText = (if snd item \<noteq> [] then snd item @ '' times per week''
                                        else ''frequency not specified'')
                        in [Lit ''<li>'', Lit (fst item), Lit '': '', Lit freqText, Lit ''</li>''])
                      inhalerData)
                   @ [Lit ''</ul>'']
              else [Lit ''<p><strong>Inhalers used:</strong> None selected</p>''])
           @ [Lit downloadPdfBtn_html]
     in (\<lparr>severity = severity, stageName = stageName, stageDescription = stageDescription\<rparr>,
         doc\<lparr>asthmaForm_display := ''none'',
             asthmaResult_innerHTML := resultHtml,
             asthmaResult_display := ''block'',
             asthma_effects := asthma_effects doc @
               [ScrollIntoView ''asthmaResult''] @
               (if downloadPdfBtn_found doc
                then [AddEventListener ''downloadPdfBtn'' ''click'' ''downloadAsthmaReportPDF'']
                else [])\<rparr>))"

subsection \<open>\<open>computeAsthmaStage\<close> of \<open>src/unnamed/part_001\<close>\<close>

definition computeAsthmaStage_part001 ::
  "asthma_document \<Rightarrow> asthma_locals \<times> asthma_document" where
  "computeAsthmaStage_part001 doc =
    (let fev1 = fev1_input doc;
         daytime = daytime_value doc;
         nighttime = nighttime_value doc;
         activity = activity_value doc;
         inhalers = inhalers_checked doc;
         frequency = frequency_value doc;
         severity0 = Fin 1;
         severity1 =
           (if \<not> isNaN fev1
            then (if js_lt fev1 (Fin 60) then Math_max severity0 (Fin 4)
                  else if js_lt fev1 (Fin 80) then Math_max severity0 (Fin 3)
                  else severity0)
            else severity0);
         severity2 = Math_max severity1 (ToNumber (js_or (js_get daytimeMap daytime) (Number (Fin 1))));
         severity3 = Math_max severity2 (ToNumber (js_or (js_get nighttimeMap nighttime) (Number (Fin 1))));
         severity = Math_max severity3 (ToNumber (js_or (js_get activityMap activity) (Number (Fin 1))));
         (stageName, stageDescription) =
           (if severity = Fin 1 then (stage1_name, stage1_description)
            else if severity = Fin 2 then (stage2_name, stage2_description)
            else if severity = Fin 3 then (stage3_name, stage3_description)
            else if severity = Fin 4 then (stage4_name, stage4_description)
            else (stage_default_name, stage_default_description));
         resultHtml =
           [Lit ''<h2>Results</h2>'']
           @ [Lit ''<p><strong>Estimated Asthma Severity:</strong> '', Lit stageName, Lit ''</p>'']
           @ [Lit ''<p>'', Lit stageDescription, Lit ''</p>'']
           @ (if \<not> isNaN fev1
              then [Lit ''<p><strong>FEV<sub>1</sub>% provided:</strong> '', Val (Number fev1), Lit ''%</p>'']
              else [])
           @ [Lit ''<p><strong>Inhalers used:</strong> '',
              Lit (if inhalers \<noteq> [] then join '', '' inhalers else ''None selected''),
              Lit ''</p>'']
           @ (if frequency \<noteq> []
              then [Lit ''<p><strong>Inhaler use frequency:</strong> '', Lit frequency, Lit '' times per week</p>'']
              else [])
     in (\<lparr>severity = severity, stageName = stageName, stageDescription = stageDescription\<rparr>,
         doc\<lparr>asthmaForm_display := ''none'',
             asthmaResult_innerHTML := resultHtml,
             asthmaResult_display := ''block'',
             asthma_effects := asthma_effects doc @ [ScrollIntoView ''asthmaResult'']\<rparr>))"

section \<open>Notions of the specification\<close>

subsection \<open>COPD\<close>

text \<open>
  A COPD input is well formed when the four numeric fields parsed to a number and one
  radio button of the mMRC group is checked.
\<close>

definition copd_well_formed :: "copd_document \<Rightarrow> bool" where
  "copd_well_formed doc =
     (ratio_input doc \<noteq> NaN \<and> fev1percent_input doc \<noteq> NaN \<and>
      exacerbations_input doc \<noteq> NaN \<and> hospitalizations_input doc \<noteq> NaN \<and>
      (\<exists>radio \<in> set (mmrcInputs doc). fst radio))"

text \<open>What each version assigns and shows.\<close>

definition copd_grade :: "copd_document \<Rightarrow> string option" where
  "copd_grade doc = map_option goldGrade (fst (computeCOPD doc))"

definition copd_group :: "copd_document \<Rightarrow> string option" where
  "copd_group doc = map_option abeGroup (fst (computeCOPD doc))"

definition copd_report :: "copd_document \<Rightarrow> html" where
  "copd_report doc = copdResult_innerHTML (snd (computeCOPD doc))"

definition copd_grade_part000 :: "copd_document \<Rightarrow> string option" where
  "copd_grade_part000 doc = map_option goldGrade (fst (computeCOPD_part000 doc))"

definition copd_group_part000 :: "copd_document \<Rightarrow> string option" where
  "copd_group_part000 doc = map_option abeGroup (fst (computeCOPD_part000 doc))"

definition copd_recommendation_part000 :: "copd_document \<Rightarrow> string option" where
  "copd_recommendation_part000 doc = map_option copdRecommendation (fst (computeCOPD_part000 doc))"

definition copd_report_part000 :: "copd_document \<Rightarrow> html" where
  "copd_report_part000 doc = copdResult_innerHTML (snd (computeCOPD_part000 doc))"

text \<open>
  The lookup table of the specification: one paragraph for each of the groups A, B, E.
\<close>

definition spec_recommendation :: "string \<Rightarrow> string" where
  "spec_recommendation g =
     (if g = groupA_name then recommendation_A
      else if g = groupB_name then recommendation_B
      else recommendation_E)"

subsection \<open>Asthma\<close>

text \<open>
  An asthma input is well formed when each of the three selects holds one of its four
  categories; the FEV1 field may hold any number or be empty.
\<close>

definition asthma_well_formed :: "asthma_document \<Rightarrow> bool" where
  "asthma_well_formed doc =
     (daytime_value doc \<in> set [''<=2'', ''3-6'', ''daily'', ''throughout''] \<and>
      nighttime_value doc \<in> set [''<=2'', ''3-4'', ''5+'', ''often''] \<and>
      activity_value doc \<in> set [''none'', ''minor'', ''some'', ''extreme''])"

definition asthma_severity :: "asthma_document \<Rightarrow> jsnum" where
  "asthma_severity doc = severity (fst (computeAsthmaStage doc))"

definition asthma_stageName :: "asthma_document \<Rightarrow> string" where
  "asthma_stageName doc = stageName (fst (computeAsthmaStage doc))"

definition asthma_severity_part001 :: "asthma_document \<Rightarrow> jsnum" where
  "asthma_severity_part001 doc = severity (fst (computeAsthmaStage_part001 doc))"

definition asthma_stageName_part001 :: "asthma_document \<Rightarrow> string" where
  "asthma_stageName_part001 doc = stageName (fst (computeAsthmaStage_part001 doc))"

text \<open>
  The four contributions as the specification tabulates them; a category outside the
  table contributes 1.
\<close>

definition spec_fev1Band :: "jsnum \<Rightarrow> nat" where
  "spec_fev1Band fev1 =
     (if js_lt fev1 (Fin 60) then 4
      else if js_ge fev1 (Fin 60) \<and> js_lt fev1 (Fin 80) then 3
      else 1)"

definition spec_daytimeBand :: "string \<Rightarrow> nat" where
  "spec_daytimeBand c =
     (if c = ''<=2'' then 1 else if c = ''3-6'' then 2 else if c = ''daily'' then 3
      else if c = ''throughout'' then 4 else 1)"

definition spec_nighttimeBand :: "string \<Rightarrow> nat" where
  "spec_nighttimeBand c =
     (if c = ''<=2'' then 1 else if c = ''3-4'' then 2 else if c = ''5+'' then 3
      else if c = ''often'' then 4 else 1)"

definition spec_activityBand :: "string \<Rightarrow> nat" where
  "spec_activityBand c =
     (if c = ''none'' then 1 else if c = ''minor'' then 2 else if c = ''some'' then 3
      else if c = ''extreme'' then 4 else 1)"

text \<open>
  The contributions as the code computes them: the second argument of \<open>Math.max\<close> on
  lines 133, 134 and 135 of \<open>src/asthma.js\<close> (103 to 105 of part 001).
\<close>

definition daytimeBand :: "string \<Rightarrow> jsnum" where
  "daytimeBand daytime = ToNumber (js_or (js_get daytimeMap daytime) (Number (Fin 1)))"

definition nighttimeBand :: "string \<Rightarrow> jsnum" where
  "nighttimeBand nighttime = ToNumber (js_or (js_get nighttimeMap nighttime) (Number (Fin 1)))"

definition activityBand :: "string \<Rightarrow> jsnum" where
  "activityBand activity = ToNumber (js_or (js_get activityMap activity) (Number (Fin 1)))"

subsection \<open>Concrete pages\<close>

definition copd_page_A :: copd_document where
  "copd_page_A =
     \<lparr>ratio_input = Fin 0.625, fev1percent_input = Fin 55,
      exacerbations_input = Fin 1, hospitalizations_input = Fin 0,
      mmrcInputs = [(False, Fin 0), (True, Fin 1), (False, Fin 2), (False, Fin 3), (False, Fin 4)],
      inhalerCheckboxes = [''SABA'', ''LAMA''], copdFrequency = ''3'',
      downloadCopdPdfBtn_found = True,
      copdForm_display = ''block'', copdResult_innerHTML = [], copdResult_display = ''none'',
      effects = []\<rparr>"

definition copd_page_B :: copd_document where
  "copd_page_B =
     \<lparr>ratio_input = Fin 0.75, fev1percent_input = Fin 45,
      exacerbations_input = Fin 3, hospitalizations_input = Fin 0,
      mmrcInputs = [(False, Fin 0), (False, Fin 1), (False, Fin 2), (True, Fin 3), (False, Fin 4)],
      inhalerCheckboxes = [], copdFrequency = [],
      downloadCopdPdfBtn_found = True,
      copdForm_display = ''block'', copdResult_innerHTML = [], copdResult_display = ''none'',
      effects = []\<rparr>"

definition copd_page_blank :: copd_document where
  "copd_page_blank =
     \<lparr>ratio_input = NaN, fev1percent_input = Fin 55,
      exacerbations_input = Fin 1, hospitalizations_input = Fin 0,
      mmrcInputs = [(False, Fin 0), (False, Fin 1), (False, Fin 2), (False, Fin 3), (False, Fin 4)],
      inhalerCheckboxes = [], copdFrequency = [],
      downloadCopdPdfBtn_found = True,
      copdForm_display = ''block'', copdResult_innerHTML = [], copdResult_display = ''none'',
      effects = []\<rparr>"

definition asthma_page_C :: asthma_document where
  "asthma_page_C =
     \<lparr>fev1_input = Fin 85, daytime_value = ''daily'', nighttime_value = ''<=2'',
      activity_value = ''none'',
      inh_checkbox = (\<lambda>k. if k = ''inh_SABA'' then Some (True, ''SABA'') else None),
      freq_input = (\<lambda>k. if k = ''freq_SABA'' then Some ''3'' else None),
      inhalers_checked = [''SABA''], frequency_value = ''3'',
      downloadPdfBtn_found = True,
      asthmaForm_display = ''block'', asthmaResult_innerHTML = [],
      asthmaResult_display = ''none'', asthma_effects = []\<rparr>"

definition asthma_page_inherited :: asthma_document where
  "asthma_page_inherited =
     \<lparr>fev1_input = NaN, daytime_value = ''toString'', nighttime_value = ''never'',
      activity_value = [],
      inh_checkbox = (\<lambda>k. None), freq_input = (\<lambda>k. None),
      inhalers_checked = [], frequency_value = [],
      downloadPdfBtn_found = True,
      asthmaForm_display = ''block'', asthmaResult_innerHTML = [],
      asthmaResult_display = ''none'', asthma_effects = []\<rparr>"

definition asthma_page_constructor :: asthma_document where
  "asthma_page_constructor =
     \<lparr>fev1_input = Fin 90, daytime_value = ''3-6'', nighttime_value = ''constructor'',
      activity_value = ''minor'',
      inh_checkbox = (\<lambda>k. None), freq_input = (\<lambda>k. None),
      inhalers_checked = [], frequency_value = [],
      downloadPdfBtn_found = True,
      asthmaForm_display = ''block'', asthmaResult_innerHTML = [],
      asthmaResult_display = ''none'', asthma_effects = []\<rparr>"

section \<open>Properties of the COPD classifier\<close>

subsection \<open>Validation and comparisons\<close>

lemma fold_mmrc_Null:
  "fold (\<lambda>radio mmrc. if fst radio then Number (snd radio) else mmrc) radios m = Null
     \<longleftrightarrow> m = Null \<and> (\<forall>radio \<in> set radios. \<not> fst radio)"
  by (induction radios arbitrary: m) auto

lemma checked_mmrc_Null: "checked_mmrc radios = Null \<longleftrightarrow> (\<forall>radio \<in> set radios. \<not> fst radio)"
  by (simp add: checked_mmrc_def fold_mmrc_Null)

lemma copd_rejected_iff:
  "isNaN (ratio_input doc) \<or> isNaN (fev1percent_input doc) \<or> isNaN (exacerbations_input doc)
     \<or> isNaN (hospitalizations_input doc) \<or> checked_mmrc (mmrcInputs doc) = Null
   \<longleftrightarrow> \<not> copd_well_formed doc"
  by (auto simp: copd_well_formed_def isNaN_def checked_mmrc_Null)

lemma js_ge_Fin [simp]: "js_ge (Fin a) (Fin b) \<longleftrightarrow> b \<le> a"
  by (auto simp: js_ge_def)

lemma js_lt_Fin [simp]: "js_lt (Fin a) (Fin b) \<longleftrightarrow> a < b"
  by (simp add: js_lt_def)

lemma js_lt_iff_not_ge: "a \<noteq> NaN \<Longrightarrow> b \<noteq> NaN \<Longrightarrow> js_lt a b \<longleftrightarrow> \<not> js_ge a b"
  by (cases a; cases b) (auto simp: js_lt_def js_ge_def)

lemma js_ge_trans_Fin: "js_ge a (Fin x) \<Longrightarrow> y \<le> x \<Longrightarrow> js_ge a (Fin y)"
  by (cases a) (auto simp: js_ge_def)

lemma gold_names_distinct: "distinct [gold1_name, gold2_name, gold3_name, gold4_name]"
  by (simp add: gold1_name_def gold2_name_def gold3_name_def gold4_name_def)

lemma group_names_distinct: "distinct [groupA_name, groupB_name, groupE_name]"
  by (simp add: groupA_name_def groupB_name_def groupE_name_def)

lemma copd_grade_eq:
  "copd_well_formed doc \<Longrightarrow>
   copd_grade doc =
     Some (if js_ge (fev1percent_input doc) (Fin 80) then gold1_name
           else if js_ge (fev1percent_input doc) (Fin 50) then gold2_name
           else if js_ge (fev1percent_input doc) (Fin 30) then gold3_name
           else gold4_name)"
  using copd_rejected_iff [of doc]
  by (simp add: copd_grade_def computeCOPD_def Let_def)

lemma copd_grade_part000_eq:
  "copd_well_formed doc \<Longrightarrow>
   copd_grade_part000 doc =
     Some (if js_ge (fev1percent_input doc) (Fin 80) then gold1_name
           else if js_ge (fev1percent_input doc) (Fin 50) then gold2_name
           else if js_ge (fev1percent_input doc) (Fin 30) then gold3_name
           else gold4_name)"
  using copd_rejected_iff [of doc]
  by (simp add: copd_grade_part000_def computeCOPD_part000_def Let_def)

lemma copd_group_eq:
  "copd_well_formed doc \<Longrightarrow>
   copd_group doc =
     Some (if js_ge (hospitalizations_input doc) (Fin 1) \<or> js_ge (exacerbations_input doc) (Fin 2)
           then groupE_name
           else if js_ge (ToNumber (checked_mmrc (mmrcInputs doc))) (Fin 2) then groupB_name
           else groupA_name)"
  using copd_rejected_iff [of doc]
  by (simp add: copd_group_def computeCOPD_def Let_def)

lemma copd_group_part000_eq:
  "copd_well_formed doc \<Longrightarrow>
   copd_group_part000 doc =
     Some (if js_ge (hospitalizations_input doc) (Fin 1) \<or> js_ge (exacerbations_input doc) (Fin 2)
           then groupE_name
           else if js_ge (ToNumber (checked_mmrc (mmrcInputs doc))) (Fin 2) then groupB_name
           else groupA_name)"
  using copd_rejected_iff [of doc]
  by (simp add: copd_group_part000_def computeCOPD_part000_def Let_def)

lemma fev1percent_bands:
  "f \<noteq> NaN \<Longrightarrow>
   js_ge f (Fin 80) \<or> (js_ge f (Fin 50) \<and> js_lt f (Fin 80)) \<or>
   (js_ge f (Fin 30) \<and> js_lt f (Fin 50)) \<or> js_lt f (Fin 30)"
  by (cases f) (auto simp: js_ge_def js_lt_def)

lemma copd_page_A_well_formed: "copd_well_formed copd_page_A"
  by (simp add: copd_well_formed_def copd_page_A_def)

subsection \<open>GOLD grade\<close>

text \<open>
  Claim C1. For a well-formed COPD input both versions of \<open>computeCOPD\<close> assign the GOLD
  grade from \<open>fev1percent\<close> alone, with closed lower bounds: at least 80 gives GOLD 1,
  from 50 up to but excluding 80 GOLD 2, from 30 up to but excluding 50 GOLD 3, below 30
  GOLD 4. One of the four cases always applies, the values 80, 50 and 30 fall into GOLD 1,
  GOLD 2 and GOLD 3, any other well-formed input with the same \<open>fev1percent\<close> gets the
  same grade, and the four grade names are different.
\<close>

theorem gold_grade_by_fev1percent:
  assumes "copd_well_formed doc" and "fev1percent_input doc = f"
  shows
    "(js_ge f (Fin 80) \<longrightarrow>
        copd_grade doc = Some gold1_name \<and> copd_grade_part000 doc = Some gold1_name) \<and>
     (js_ge f (Fin 50) \<and> js_lt f (Fin 80) \<longrightarrow>
        copd_grade doc = Some gold2_name \<and> copd_grade_part000 doc = Some gold2_name) \<and>
     (js_ge f (Fin 30) \<and> js_lt f (Fin 50) \<longrightarrow>
        copd_grade doc = Some gold3_name \<and> copd_grade_part000 doc = Some gold3_name) \<and>
     (js_lt f (Fin 30) \<longrightarrow>
        copd_grade doc = Some gold4_name \<and> copd_grade_part000 doc = Some gold4_name) \<and>
     (js_ge f (Fin 80) \<or> (js_ge f (Fin 50) \<and> js_lt f (Fin 80)) \<or>
        (js_ge f (Fin 30) \<and> js_lt f (Fin 50)) \<or> js_lt f (Fin 30)) \<and>
     (f = Fin 80 \<longrightarrow> copd_grade doc = Some gold1_name \<and> copd_grade_part000 doc = Some gold1_name) \<and>
     (f = Fin 50 \<longrightarrow> copd_grade doc = Some gold2_name \<and> copd_grade_part000 doc = Some gold2_name) \<and>
     (f = Fin 30 \<longrightarrow> copd_grade doc = Some gold3_name \<and> copd_grade_part000 doc = Some gold3_name) \<and>
     (copd_well_formed doc' \<and> fev1percent_input doc' = f \<longrightarrow>
        copd_grade doc' = copd_grade doc \<and> copd_grade_part000 doc' = copd_grade_part000 doc) \<and>
     distinct [gold1_name, gold2_name, gold3_name, gold4_name]"
proof -
  have f: "f \<noteq> NaN"
    using assms by (auto simp: copd_well_formed_def)
  note eqs = copd_grade_eq [OF assms(1)] copd_grade_part000_eq [OF assms(1)]
  have g1: "js_ge f (Fin 80) \<longrightarrow>
        copd_grade doc = Some gold1_name \<and> copd_grade_part000 doc = Some gold1_name"
    by (simp add: eqs assms(2))
  have g2: "js_ge f (Fin 50) \<and> js_lt f (Fin 80) \<longrightarrow>
        copd_grade doc = Some gold2_name \<and> copd_grade_part000 doc = Some gold2_name"
    using f by (simp add: eqs assms(2) js_lt_iff_not_ge)
  have g3: "js_ge f (Fin 30) \<and> js_lt f (Fin 50) \<longrightarrow>
        copd_grade doc = Some gold3_name \<and> copd_grade_part000 doc = Some gold3_name"
    using f js_ge_trans_Fin [of f 80 50] by (auto simp add: eqs assms(2) js_lt_iff_not_ge)
  have g4: "js_lt f (Fin 30) \<longrightarrow>
        copd_grade doc = Some gold4_name \<and> copd_grade_part000 doc = Some gold4_name"
    using f js_ge_trans_Fin [of f 80 30] js_ge_trans_Fin [of f 50 30]
    by (auto simp add: eqs assms(2) js_lt_iff_not_ge)
  have same: "copd_well_formed doc' \<and> fev1percent_input doc' = f \<longrightarrow>
        copd_grade doc' = copd_grade doc \<and> copd_grade_part000 doc' = copd_grade_part000 doc"
    by (simp add: eqs assms(2) copd_grade_eq copd_grade_part000_eq)
  show ?thesis
    using g1 g2 g3 g4 same fev1percent_bands [OF f] gold_names_distinct
    by (simp only: js_ge_Fin js_lt_Fin) auto
qed

theorem gold_grade_by_fev1percent_witness:
  "copd_well_formed copd_page_A \<and> fev1percent_input copd_page_A = Fin 55 \<and>
   js_ge (Fin 55) (Fin 50) \<and> js_lt (Fin 55) (Fin 80) \<and>
   copd_grade copd_page_A = Some gold2_name \<and> copd_grade_part000 copd_page_A = Some gold2_name"
proof -
  have wf: "copd_well_formed copd_page_A"
    by (simp add: copd_well_formed_def copd_page_A_def)
  have f: "fev1percent_input copd_page_A = Fin 55"
    by (simp add: copd_page_A_def)
  show ?thesis
    using wf f gold_grade_by_fev1percent [OF wf f, of copd_page_A] by simp
qed

subsection \<open>ABE group\<close>

lemma checked_mmrc_Number:
  "\<exists>radio \<in> set radios. fst radio \<Longrightarrow> \<exists>x. checked_mmrc radios = Number x"
proof -
  have "fold (\<lambda>radio mmrc. if fst radio then Number (snd radio) else mmrc) radios m = Null
        \<or> (\<exists>x. fold (\<lambda>radio mmrc. if fst radio then Number (snd radio) else mmrc) radios m = Number x)"
    if "m = Null \<or> (\<exists>x. m = Number x)" for m
    using that by (induction radios arbitrary: m) auto
  from this [of Null] have "checked_mmrc radios = Null \<or> (\<exists>x. checked_mmrc radios = Number x)"
    by (simp add: checked_mmrc_def)
  moreover assume "\<exists>radio \<in> set radios. fst radio"
  then have "checked_mmrc radios \<noteq> Null"
    by (simp add: checked_mmrc_Null)
  ultimately show ?thesis by blast
qed

text \<open>
  Claim C2. For a well-formed COPD input both versions assign the ABE group by the first
  rule that applies: at least one hospitalization or at least two exacerbations give
  Group E, whatever the mMRC score; otherwise an mMRC score of at least 2 gives Group B;
  otherwise Group A. The score is the number carried by the checked radio button, and
  the three group names are different.
\<close>

theorem abe_group_first_match:
  assumes "copd_well_formed doc"
    and "exacerbations_input doc = e" and "hospitalizations_input doc = h"
    and "checked_mmrc (mmrcInputs doc) = mmrc"
  shows
    "(js_ge h (Fin 1) \<or> js_ge e (Fin 2) \<longrightarrow>
        copd_group doc = Some groupE_name \<and> copd_group_part000 doc = Some groupE_name) \<and>
     (\<not> (js_ge h (Fin 1) \<or> js_ge e (Fin 2)) \<and> js_ge (ToNumber mmrc) (Fin 2) \<longrightarrow>
        copd_group doc = Some groupB_name \<and> copd_group_part000 doc = Some groupB_name) \<and>
     (\<not> (js_ge h (Fin 1) \<or> js_ge e (Fin 2)) \<and> \<not> js_ge (ToNumber mmrc) (Fin 2) \<longrightarrow>
        copd_group doc = Some groupA_name \<and> copd_group_part000 doc = Some groupA_name) \<and>
     (\<exists>x. mmrc = Number x) \<and>
     distinct [groupA_name, groupB_name, groupE_name]"
proof -
  have "\<exists>x. mmrc = Number x"
    using assms(1,4) checked_mmrc_Number [of "mmrcInputs doc"]
    by (simp add: copd_well_formed_def)
  then show ?thesis
    using group_names_distinct
    by (simp add: copd_group_eq [OF assms(1)] copd_group_part000_eq [OF assms(1)] assms(2-4))
qed

theorem abe_group_first_match_witness:
  "copd_well_formed copd_page_B \<and> js_ge (Fin 3) (Fin 2) \<and>
   copd_group copd_page_B = Some groupE_name \<and> copd_group_part000 copd_page_B = Some groupE_name \<and>
   copd_well_formed copd_page_A \<and> \<not> (js_ge (Fin 0) (Fin 1) \<or> js_ge (Fin 1) (Fin 2)) \<and>
   \<not> js_ge (ToNumber (Number (Fin 1))) (Fin 2) \<and>
   copd_group copd_page_A = Some groupA_name \<and> copd_group_part000 copd_page_A = Some groupA_name"
proof -
  have wfB: "copd_well_formed copd_page_B"
    by (simp add: copd_well_formed_def copd_page_B_def)
  have eB: "exacerbations_input copd_page_B = Fin 3"
    and hB: "hospitalizations_input copd_page_B = Fin 0"
    and mB: "checked_mmrc (mmrcInputs copd_page_B) = Number (Fin 3)"
    by (simp_all add: copd_page_B_def checked_mmrc_def)
  have wfA: "copd_well_formed copd_page_A"
    by (simp add: copd_well_formed_def copd_page_A_def)
  have eA: "exacerbations_input copd_page_A = Fin 1"
    and hA: "hospitalizations_input copd_page_A = Fin 0"
    and mA: "checked_mmrc (mmrcInputs copd_page_A) = Number (Fin 1)"
    by (simp_all add: copd_page_A_def checked_mmrc_def)
  show ?thesis
    using wfA wfB abe_group_first_match [OF wfB eB hB mB] abe_group_first_match [OF wfA eA hA mA]
    by simp
qed

subsection \<open>Validation\<close>

lemma computeCOPD_rejected:
  "\<not> copd_well_formed doc \<Longrightarrow>
   computeCOPD doc = (None, doc\<lparr>effects := effects doc @ [Alert alert_required]\<rparr>)"
  using copd_rejected_iff [of doc] by (simp add: computeCOPD_def Let_def)

lemma computeCOPD_part000_rejected:
  "\<not> copd_well_formed doc \<Longrightarrow>
   computeCOPD_part000 doc = (None, doc\<lparr>effects := effects doc @ [Alert alert_required]\<rparr>)"
  using copd_rejected_iff [of doc] by (simp add: computeCOPD_part000_def Let_def)

text \<open>
  Claim C7. When the ratio, the FEV1 percentage, the number of exacerbations or the
  number of hospitalizations is missing or not numeric (\<open>parseFloat\<close> or \<open>parseInt\<close>
  returned \<open>NaN\<close>), or no mMRC radio button is checked, both versions only show the
  alert that reports the failed validation and return: no grade, group, recommendation
  or report is computed, and the form, the result area and its content stay as they were.
\<close>

theorem validation_failure_leaves_page:
  assumes "ratio_input doc = NaN \<or> fev1percent_input doc = NaN \<or> exacerbations_input doc = NaN
           \<or> hospitalizations_input doc = NaN \<or> (\<forall>radio \<in> set (mmrcInputs doc). \<not> fst radio)"
  shows
    "computeCOPD doc = (None, doc\<lparr>effects := effects doc @ [Alert alert_required]\<rparr>) \<and>
     computeCOPD_part000 doc = (None, doc\<lparr>effects := effects doc @ [Alert alert_required]\<rparr>) \<and>
     copd_grade doc = None \<and> copd_group doc = None \<and>
     copd_grade_part000 doc = None \<and> copd_group_part000 doc = None \<and>
     copd_recommendation_part000 doc = None \<and>
     copd_report doc = copdResult_innerHTML doc \<and>
     copd_report_part000 doc = copdResult_innerHTML doc \<and>
     copdForm_display (snd (computeCOPD doc)) = copdForm_display doc \<and>
     copdResult_display (snd (computeCOPD doc)) = copdResult_display doc \<and>
     copdForm_display (snd (computeCOPD_part000 doc)) = copdForm_display doc \<and>
     copdResult_display (snd (computeCOPD_part000 doc)) = copdResult_display doc"
proof -
  have "\<not> copd_well_formed doc"
    using assms by (auto simp: copd_well_formed_def)
  then show ?thesis
    by (simp add: computeCOPD_rejected computeCOPD_part000_rejected copd_grade_def copd_group_def
        copd_grade_part000_def copd_group_part000_def copd_recommendation_part000_def
        copd_report_def copd_report_part000_def)
qed

theorem validation_failure_leaves_page_witness:
  "ratio_input copd_page_blank = NaN \<and>
   map fst (mmrcInputs copd_page_blank) = [False, False, False, False, False] \<and>
   computeCOPD copd_page_blank =
     (None, copd_page_blank\<lparr>effects := [Alert ''Please fill in all required fields.'']\<rparr>) \<and>
   computeCOPD_part000 copd_page_blank =
     (None, copd_page_blank\<lparr>effects := [Alert ''Please fill in all required fields.'']\<rparr>) \<and>
   copd_report copd_page_blank = [] \<and> copd_report_part000 copd_page_blank = []"
proof -
  have h: "ratio_input copd_page_blank = NaN"
    and r: "map fst (mmrcInputs copd_page_blank) = [False, False, False, False, False]"
    and e: "effects copd_page_blank = []"
    and i: "copdResult_innerHTML copd_page_blank = []"
    by (simp_all add: copd_page_blank_def)
  have "ratio_input copd_page_blank = NaN \<or> fev1percent_input copd_page_blank = NaN
        \<or> exacerbations_input copd_page_blank = NaN \<or> hospitalizations_input copd_page_blank = NaN
        \<or> (\<forall>radio \<in> set (mmrcInputs copd_page_blank). \<not> fst radio)"
    using h by simp
  from validation_failure_leaves_page [OF this] h r e i show ?thesis
    by (simp add: alert_required_def)
qed


subsection \<open>The ratio and the report\<close>

lemma copd_locals_ratio:
  assumes "copd_well_formed doc" and "r \<noteq> NaN"
  shows "fst (computeCOPD (doc\<lparr>ratio_input := r\<rparr>)) = fst (computeCOPD doc)"
    and "fst (computeCOPD_part000 (doc\<lparr>ratio_input := r\<rparr>)) = fst (computeCOPD_part000 doc)"
  using copd_rejected_iff [of doc] assms
  by (simp_all add: computeCOPD_def computeCOPD_part000_def Let_def case_prod_beta isNaN_def
      split del: if_split cong del: if_weak_cong)

lemma copd_report_ratio:
  assumes "copd_well_formed doc" and "r \<noteq> NaN"
  shows "\<exists>rest. copd_report doc =
               Lit ''<h2>Results</h2>'' # diagnosticCriterion (ratio_input doc) @ rest \<and>
             copd_report (doc\<lparr>ratio_input := r\<rparr>) =
               Lit ''<h2>Results</h2>'' # diagnosticCriterion r @ rest"
  using copd_rejected_iff [of doc] assms
  by (simp add: copd_report_def computeCOPD_def Let_def case_prod_beta isNaN_def
      split del: if_split cong del: if_weak_cong)

lemma copd_report_part000_ratio:
  assumes "copd_well_formed doc" and "r \<noteq> NaN"
  shows "\<exists>rest. copd_report_part000 doc =
               Lit ''<h2>Results</h2>'' # diagnosticCriterion (ratio_input doc) @ rest \<and>
             copd_report_part000 (doc\<lparr>ratio_input := r\<rparr>) =
               Lit ''<h2>Results</h2>'' # diagnosticCriterion r @ rest"
  using copd_rejected_iff [of doc] assms
  by (simp add: copd_report_part000_def computeCOPD_part000_def Let_def case_prod_beta isNaN_def
      split del: if_split cong del: if_weak_cong)

lemma copd_page_ratio:
  assumes "copd_well_formed doc" and "r \<noteq> NaN"
  shows "(snd (computeCOPD (doc\<lparr>ratio_input := r\<rparr>)))
            \<lparr>ratio_input := ratio_input doc, copdResult_innerHTML := []\<rparr>
         = (snd (computeCOPD doc))\<lparr>copdResult_innerHTML := []\<rparr>"
    and "(snd (computeCOPD_part000 (doc\<lparr>ratio_input := r\<rparr>)))
            \<lparr>ratio_input := ratio_input doc, copdResult_innerHTML := []\<rparr>
         = (snd (computeCOPD_part000 doc))\<lparr>copdResult_innerHTML := []\<rparr>"
  using copd_rejected_iff [of doc] assms
  by (simp_all add: computeCOPD_def computeCOPD_part000_def Let_def case_prod_beta isNaN_def
      split del: if_split cong del: if_weak_cong)

text \<open>
  Claim C6. Two well-formed COPD inputs that differ in the ratio alone get the same GOLD
  grade and the same ABE group from both versions, indeed the same values of all the
  classification variables. Grade and group are assigned for every ratio that is a
  number, also one of 0.70 or more. The two reports are the heading, the
  diagnostic-criterion paragraph of the respective ratio, and one common remainder;
  nothing else on the resulting page depends on the ratio.
\<close>

theorem ratio_noninterference:
  assumes "copd_well_formed doc" and "r \<noteq> NaN"
  shows
    "copd_well_formed (doc\<lparr>ratio_input := r\<rparr>) \<and>
     copd_grade (doc\<lparr>ratio_input := r\<rparr>) = copd_grade doc \<and>
     copd_group (doc\<lparr>ratio_input := r\<rparr>) = copd_group doc \<and>
     copd_grade_part000 (doc\<lparr>ratio_input := r\<rparr>) = copd_grade_part000 doc \<and>
     copd_group_part000 (doc\<lparr>ratio_input := r\<rparr>) = copd_group_part000 doc \<and>
     copd_grade doc \<noteq> None \<and> copd_group doc \<noteq> None \<and>
     copd_grade_part000 doc \<noteq> None \<and> copd_group_part000 doc \<noteq> None \<and>
     fst (computeCOPD (doc\<lparr>ratio_input := r\<rparr>)) = fst (computeCOPD doc) \<and>
     fst (computeCOPD_part000 (doc\<lparr>ratio_input := r\<rparr>)) = fst (computeCOPD_part000 doc) \<and>
     (\<exists>rest. copd_report doc =
               Lit ''<h2>Results</h2>'' # diagnosticCriterion (ratio_input doc) @ rest \<and>
             copd_report (doc\<lparr>ratio_input := r\<rparr>) =
               Lit ''<h2>Results</h2>'' # diagnosticCriterion r @ rest) \<and>
     (\<exists>rest. copd_report_part000 doc =
               Lit ''<h2>Results</h2>'' # diagnosticCriterion (ratio_input doc) @ rest \<and>
             copd_report_part000 (doc\<lparr>ratio_input := r\<rparr>) =
               Lit ''<h2>Results</h2>'' # diagnosticCriterion r @ rest) \<and>
     (snd (computeCOPD (doc\<lparr>ratio_input := r\<rparr>)))
        \<lparr>ratio_input := ratio_input doc, copdResult_innerHTML := []\<rparr>
       = (snd (computeCOPD doc))\<lparr>copdResult_innerHTML := []\<rparr> \<and>
     (snd (computeCOPD_part000 (doc\<lparr>ratio_input := r\<rparr>)))
        \<lparr>ratio_input := ratio_input doc, copdResult_innerHTML := []\<rparr>
       = (snd (computeCOPD_part000 doc))\<lparr>copdResult_innerHTML := []\<rparr>"
proof -
  have wf': "copd_well_formed (doc\<lparr>ratio_input := r\<rparr>)"
    using assms by (simp add: copd_well_formed_def)
  have grades: "copd_grade (doc\<lparr>ratio_input := r\<rparr>) = copd_grade doc"
      "copd_grade_part000 (doc\<lparr>ratio_input := r\<rparr>) = copd_grade_part000 doc"
      "copd_grade doc \<noteq> None" "copd_grade_part000 doc \<noteq> None"
    by (simp_all add: copd_grade_eq copd_grade_part000_eq wf' assms(1))
  have groups: "copd_group (doc\<lparr>ratio_input := r\<rparr>) = copd_group doc"
      "copd_group_part000 (doc\<lparr>ratio_input := r\<rparr>) = copd_group_part000 doc"
      "copd_group doc \<noteq> None" "copd_group_part000 doc \<noteq> None"
    by (simp_all add: copd_group_eq copd_group_part000_eq wf' assms(1))
  show ?thesis
    using wf' grades groups copd_locals_ratio [OF assms] copd_report_ratio [OF assms]
      copd_report_part000_ratio [OF assms] copd_page_ratio [OF assms]
    by simp
qed

theorem ratio_noninterference_witness:
  "copd_well_formed copd_page_A \<and> js_ge (Fin 0.75) (Fin js_0_7) \<and>
   js_lt (ratio_input copd_page_A) (Fin js_0_7) \<and>
   copd_grade (copd_page_A\<lparr>ratio_input := Fin 0.75\<rparr>) = Some gold2_name \<and>
   copd_grade copd_page_A = Some gold2_name \<and>
   copd_group (copd_page_A\<lparr>ratio_input := Fin 0.75\<rparr>) = Some groupA_name \<and>
   copd_group copd_page_A = Some groupA_name"
proof -
  have wf: "copd_well_formed copd_page_A"
    by (simp add: copd_well_formed_def copd_page_A_def)
  have r: "Fin 0.75 \<noteq> NaN"
    by simp
  have grade: "copd_grade copd_page_A = Some gold2_name"
    by (simp add: copd_grade_eq [OF wf]) (simp add: copd_page_A_def)
  have group: "copd_group copd_page_A = Some groupA_name"
    by (simp add: copd_group_eq [OF wf]) (simp add: copd_page_A_def checked_mmrc_def)
  have cmp: "js_ge (Fin 0.75) (Fin js_0_7)" "js_lt (ratio_input copd_page_A) (Fin js_0_7)"
    by (simp_all add: js_0_7_def copd_page_A_def)
  show ?thesis
    using wf cmp ratio_noninterference [OF wf r] grade group by simp
qed

subsection \<open>Treatment recommendation\<close>

lemma recommendations_distinct:
  "distinct [recommendation_A, recommendation_B, recommendation_E]"
  by (simp add: recommendation_A_def recommendation_B_def recommendation_E_def
      recommendation_A_1_def recommendation_B_1_def recommendation_E_1_def)

lemma recommendations_nonempty:
  "recommendation_A \<noteq> []" "recommendation_B \<noteq> []" "recommendation_E \<noteq> []"
  by (simp_all add: recommendation_A_def recommendation_B_def recommendation_E_def
      recommendation_heading_def)

lemma copd_report_part000_eq:
  "copd_well_formed doc \<Longrightarrow>
   copd_report_part000 doc =
     copd_report doc @
     (if the (copd_recommendation_part000 doc) \<noteq> []
      then [Lit (the (copd_recommendation_part000 doc))] else []) @
     [Lit downloadCopdPdfBtn_html]"
  using copd_rejected_iff [of doc]
  by (simp add: copd_report_part000_def copd_report_def copd_recommendation_part000_def
      computeCOPD_part000_def computeCOPD_def Let_def case_prod_beta
      split del: if_split cong del: if_weak_cong)

lemma copd_recommendation_part000_chain:
  "copd_well_formed doc \<Longrightarrow>
   copd_recommendation_part000 doc =
     map_option (\<lambda>abeGroup.
        if abeGroup = ''Group'' @ nbsp @ ''A'' then recommendation_A
        else if abeGroup = ''Group'' @ nbsp @ ''B'' then recommendation_B
        else if abeGroup = ''Group'' @ nbsp @ ''E'' then recommendation_E
        else []) (copd_group_part000 doc)"
  using copd_rejected_iff [of doc]
  by (simp add: copd_recommendation_part000_def copd_group_part000_def computeCOPD_part000_def
      Let_def case_prod_beta split del: if_split cong del: if_weak_cong)

lemma copd_group_part000_cases:
  "copd_well_formed doc \<Longrightarrow>
   copd_group_part000 doc \<in> {Some groupA_name, Some groupB_name, Some groupE_name}"
  by (simp add: copd_group_part000_eq)

lemma copd_recommendation_part000_eq:
  "copd_well_formed doc \<Longrightarrow>
   copd_recommendation_part000 doc = map_option spec_recommendation (copd_group_part000 doc)"
  using copd_group_part000_cases [of doc]
  by (auto simp add: copd_recommendation_part000_chain spec_recommendation_def
      groupA_name_def groupB_name_def groupE_name_def)

lemma copd_report_page_A:
  "copd_report copd_page_A =
    [Lit ''<h2>Results</h2>''] @ diagnosticCriterion (Fin 0.625) @
    [Lit ''<p><strong>GOLD Grade:</strong> '', Lit gold2_name, Lit ''</p>'',
     Lit ''<p>'', Lit gold2_description, Lit ''</p>'',
     Lit ''<p><strong>ABE Group:</strong> '', Lit groupA_name, Lit ''</p>'',
     Lit ''<p>'', Lit groupA_description, Lit ''</p>'',
     Lit ''<p><strong>FEV<sub>1</sub>% provided:</strong> '', Val (Number (Fin 55)), Lit ''%</p>'',
     Lit ''<p><strong>mMRC score:</strong> '', Val (Number (Fin 1)), Lit ''</p>'',
     Lit ''<p><strong>Number of moderate exacerbations:</strong> '', Val (Number (Fin 1)), Lit ''</p>'',
     Lit ''<p><strong>Number of hospitalizations:</strong> '', Val (Number (Fin 0)), Lit ''</p>'',
     Lit ''<p><strong>Inhalers used:</strong> '', Lit ''SABA, LAMA'', Lit ''</p>'',
     Lit ''<p><strong>Inhaler use frequency:</strong> '', Lit ''3'', Lit '' times per week</p>'']"
  by (simp add: copd_report_def computeCOPD_def Let_def copd_page_A_def isNaN_def
      checked_mmrc_def)

lemma copd_report_page_A_no_heading:
  "Lit (recommendation_heading @ items) \<notin> set (copd_report copd_page_A)"
  unfolding copd_report_page_A
  by (simp add: diagnosticCriterion_def recommendation_heading_def gold2_name_def
      gold2_description_def groupA_name_def groupA_description_def)

text \<open>
  Claim C8, as the code has it. The version of part 000 computes, for every well-formed
  COPD input, a treatment recommendation that is looked up from the ABE group alone: one
  of three different fixed paragraphs, one each for Group A, Group B and Group E, the
  same for any two inputs of the same group. Its report is the report of
  \<open>src/copd.js\<close> followed by that paragraph and the download button; the version of
  \<open>src/copd.js\<close> computes no recommendation.
\<close>

theorem recommendation_by_group_part000:
  assumes "copd_well_formed doc"
  shows
    "\<exists>g. copd_group_part000 doc = Some g \<and>
         g \<in> {groupA_name, groupB_name, groupE_name} \<and>
         copd_recommendation_part000 doc = Some (spec_recommendation g) \<and>
         spec_recommendation g \<in> {recommendation_A, recommendation_B, recommendation_E} \<and>
         (g = groupA_name \<longrightarrow> spec_recommendation g = recommendation_A) \<and>
         (g = groupB_name \<longrightarrow> spec_recommendation g = recommendation_B) \<and>
         (g = groupE_name \<longrightarrow> spec_recommendation g = recommendation_E) \<and>
         distinct [recommendation_A, recommendation_B, recommendation_E] \<and>
         copd_report_part000 doc =
           copd_report doc @ [Lit (spec_recommendation g), Lit downloadCopdPdfBtn_html] \<and>
         (copd_well_formed doc' \<and> copd_group_part000 doc' = Some g \<longrightarrow>
            copd_recommendation_part000 doc' = Some (spec_recommendation g))"
proof -
  obtain g where g: "copd_group_part000 doc = Some g"
    and gs: "g \<in> {groupA_name, groupB_name, groupE_name}"
    using copd_group_part000_eq [OF assms] by auto
  have rec: "copd_recommendation_part000 doc = Some (spec_recommendation g)"
    using copd_recommendation_part000_eq [OF assms] g by simp
  have ne: "spec_recommendation g \<noteq> []"
    using recommendations_nonempty by (simp add: spec_recommendation_def)
  have rep: "copd_report_part000 doc =
           copd_report doc @ [Lit (spec_recommendation g), Lit downloadCopdPdfBtn_html]"
    using copd_report_part000_eq [OF assms] rec ne by simp
  have other: "copd_well_formed doc' \<and> copd_group_part000 doc' = Some g \<longrightarrow>
            copd_recommendation_part000 doc' = Some (spec_recommendation g)"
    using copd_recommendation_part000_eq [of doc'] by simp
  have tab: "(g = groupA_name \<longrightarrow> spec_recommendation g = recommendation_A) \<and>
         (g = groupB_name \<longrightarrow> spec_recommendation g = recommendation_B) \<and>
         (g = groupE_name \<longrightarrow> spec_recommendation g = recommendation_E)"
    using group_names_distinct by (auto simp: spec_recommendation_def)
  have mem: "spec_recommendation g \<in> {recommendation_A, recommendation_B, recommendation_E}"
    by (simp add: spec_recommendation_def)
  show ?thesis
    using g gs rec rep other tab mem recommendations_distinct by blast
qed

theorem recommendation_by_group_part000_witness:
  "copd_well_formed copd_page_B \<and> copd_group_part000 copd_page_B = Some groupE_name \<and>
   copd_recommendation_part000 copd_page_B = Some recommendation_E \<and>
   copd_report_part000 copd_page_B =
     copd_report copd_page_B @ [Lit recommendation_E, Lit downloadCopdPdfBtn_html]"
proof -
  have wf: "copd_well_formed copd_page_B"
    by (simp add: copd_well_formed_def copd_page_B_def)
  have g: "copd_group_part000 copd_page_B = Some groupE_name"
    by (simp add: copd_group_part000_eq [OF wf]) (simp add: copd_page_B_def)
  from recommendation_by_group_part000 [OF wf, of copd_page_B] g wf show ?thesis
    by auto
qed

text \<open>
  Claim C8 as stated, for every version, fails on \<open>src/copd.js\<close>: the report that it
  builds for a well-formed input of Group A (FEV1 55 percent, one exacerbation, no
  hospitalization, mMRC 1) holds none of the three paragraphs.
\<close>

theorem copd_js_report_without_recommendation:
  "copd_well_formed copd_page_A \<and>
   Lit recommendation_A \<notin> set (copd_report copd_page_A) \<and>
   Lit recommendation_B \<notin> set (copd_report copd_page_A) \<and>
   Lit recommendation_E \<notin> set (copd_report copd_page_A)"
proof -
  have wf: "copd_well_formed copd_page_A"
    by (simp add: copd_well_formed_def copd_page_A_def)
  show ?thesis
    using wf copd_report_page_A_no_heading
    by (simp add: recommendation_A_def recommendation_B_def recommendation_E_def)
qed

section \<open>Properties of the asthma classifier\<close>

subsection \<open>The severity as a maximum\<close>

lemma Math_max_Fin: "Math_max (Fin a) (Fin b) = Fin (max a b)"
  by (simp add: Math_max_def max_def)

lemma fev1_severity:
  "(if \<not> isNaN fev1
    then (if js_lt fev1 (Fin 60) then Math_max (Fin 1) (Fin 4)
          else if js_lt fev1 (Fin 80) then Math_max (Fin 1) (Fin 3)
          else Fin 1)
    else Fin 1) = Fin (real (spec_fev1Band fev1))"
  by (cases fev1) (auto simp: isNaN_def spec_fev1Band_def Math_max_Fin js_lt_def js_ge_def)

lemma asthma_severity_eq:
  "asthma_severity doc =
     Math_max (Math_max (Math_max (Fin (real (spec_fev1Band (fev1_input doc))))
                                  (daytimeBand (daytime_value doc)))
                        (nighttimeBand (nighttime_value doc)))
              (activityBand (activity_value doc))"
  by (simp add: asthma_severity_def computeAsthmaStage_def Let_def case_prod_beta
      daytimeBand_def nighttimeBand_def activityBand_def fev1_severity [symmetric]
      split del: if_split cong del: if_weak_cong)

lemma asthma_severity_part001_eq:
  "asthma_severity_part001 doc =
     Math_max (Math_max (Math_max (Fin (real (spec_fev1Band (fev1_input doc))))
                                  (daytimeBand (daytime_value doc)))
                        (nighttimeBand (nighttime_value doc)))
              (activityBand (activity_value doc))"
  by (simp add: asthma_severity_part001_def computeAsthmaStage_part001_def Let_def case_prod_beta
      daytimeBand_def nighttimeBand_def activityBand_def fev1_severity [symmetric]
      split del: if_split cong del: if_weak_cong)

text \<open>
  A category that is not the name of an inherited property contributes what the table
  of the specification says; the name of an inherited property contributes \<open>NaN\<close>.
\<close>

lemma inherited_key_iff:
  "key \<in> set objectPrototype_keys \<longleftrightarrow>
     key = ''constructor'' \<or> key = ''hasOwnProperty'' \<or> key = ''isPrototypeOf'' \<or>
     key = ''propertyIsEnumerable'' \<or> key = ''toLocaleString'' \<or> key = ''toString'' \<or>
     key = ''valueOf'' \<or> key = ''__proto__'' \<or> key = ''__defineGetter__'' \<or>
     key = ''__defineSetter__'' \<or> key = ''__lookupGetter__'' \<or> key = ''__lookupSetter__''"
  by (simp add: objectPrototype_keys_def)

lemma daytimeBand_spec:
  "daytime \<notin> set objectPrototype_keys \<Longrightarrow> daytimeBand daytime = Fin (real (spec_daytimeBand daytime))"
  by (simp add: daytimeBand_def js_get_def daytimeMap_def js_or_def spec_daytimeBand_def)

lemma nighttimeBand_spec:
  "nighttime \<notin> set objectPrototype_keys \<Longrightarrow>
   nighttimeBand nighttime = Fin (real (spec_nighttimeBand nighttime))"
  by (simp add: nighttimeBand_def js_get_def nighttimeMap_def js_or_def spec_nighttimeBand_def)

lemma activityBand_spec:
  "activity \<notin> set objectPrototype_keys \<Longrightarrow>
   activityBand activity = Fin (real (spec_activityBand activity))"
  by (simp add: activityBand_def js_get_def activityMap_def js_or_def spec_activityBand_def)

lemma inherited_band:
  assumes "key \<in> set objectPrototype_keys"
  shows "daytimeBand key = NaN" and "nighttimeBand key = NaN" and "activityBand key = NaN"
  using assms unfolding inherited_key_iff
  by (auto simp: daytimeBand_def nighttimeBand_def activityBand_def js_get_def js_or_def
      daytimeMap_def nighttimeMap_def activityMap_def objectPrototype_keys_def)

lemma category_not_inherited:
  "c \<in> set [''<=2'', ''3-6'', ''daily'', ''throughout''] \<Longrightarrow> c \<notin> set objectPrototype_keys"
  "c \<in> set [''<=2'', ''3-4'', ''5+'', ''often''] \<Longrightarrow> c \<notin> set objectPrototype_keys"
  "c \<in> set [''none'', ''minor'', ''some'', ''extreme''] \<Longrightarrow> c \<notin> set objectPrototype_keys"
  by (auto simp: objectPrototype_keys_def)

lemma well_formed_not_inherited:
  assumes "asthma_well_formed doc"
  shows "daytime_value doc \<notin> set objectPrototype_keys"
    and "nighttime_value doc \<notin> set objectPrototype_keys"
    and "activity_value doc \<notin> set objectPrototype_keys"
  using assms category_not_inherited unfolding asthma_well_formed_def by blast+

lemma spec_fev1Band_one: "spec_fev1Band fev1 = 1 \<longleftrightarrow> js_ge fev1 (Fin 80) \<or> fev1 = NaN"
  by (cases fev1) (auto simp: spec_fev1Band_def js_ge_def js_lt_def)

lemma asthma_page_C_well_formed: "asthma_well_formed asthma_page_C"
  by (simp add: asthma_well_formed_def asthma_page_C_def)

text \<open>
  Claim C3. For a well-formed asthma input both versions compute as severity the maximum
  of four contributions: the FEV1 band (below 60 gives 4, from 60 up to but excluding 80
  gives 3, 80 or more or an empty field gives 1) and the table values of the daytime,
  nighttime and activity categories.
\<close>

theorem severity_is_maximum:
  assumes "asthma_well_formed doc"
  shows
    "asthma_severity doc =
       Fin (real (Max {spec_fev1Band (fev1_input doc), spec_daytimeBand (daytime_value doc),
                       spec_nighttimeBand (nighttime_value doc),
                       spec_activityBand (activity_value doc)})) \<and>
     asthma_severity_part001 doc =
       Fin (real (Max {spec_fev1Band (fev1_input doc), spec_daytimeBand (daytime_value doc),
                       spec_nighttimeBand (nighttime_value doc),
                       spec_activityBand (activity_value doc)})) \<and>
     (spec_fev1Band (fev1_input doc) = 1 \<longleftrightarrow>
        js_ge (fev1_input doc) (Fin 80) \<or> fev1_input doc = NaN)"
proof -
  have "Max {a, b, c, d} = max (max (max a b) c) d" for a b c d :: nat
    by (simp add: max.commute max.left_commute)
  then show ?thesis
    using well_formed_not_inherited [OF assms] spec_fev1Band_one [of "fev1_input doc"]
    by (simp add: asthma_severity_eq asthma_severity_part001_eq daytimeBand_spec
        nighttimeBand_spec activityBand_spec Math_max_Fin)
qed

theorem severity_is_maximum_witness:
  "asthma_well_formed asthma_page_C \<and>
   asthma_severity asthma_page_C = Fin 3 \<and> asthma_severity_part001 asthma_page_C = Fin 3 \<and>
   spec_fev1Band (Fin 85) = 1 \<and> spec_daytimeBand ''daily'' = 3 \<and>
   spec_nighttimeBand ''<=2'' = 1 \<and> spec_activityBand ''none'' = 1"
proof -
  have wf: "asthma_well_formed asthma_page_C"
    by (simp add: asthma_well_formed_def asthma_page_C_def)
  have bands: "spec_fev1Band (Fin 85) = 1" "spec_daytimeBand ''daily'' = 3"
      "spec_nighttimeBand ''<=2'' = 1" "spec_activityBand ''none'' = 1"
    by (simp_all add: spec_fev1Band_def spec_daytimeBand_def spec_nighttimeBand_def
        spec_activityBand_def)
  have fields: "fev1_input asthma_page_C = Fin 85" "daytime_value asthma_page_C = ''daily''"
      "nighttime_value asthma_page_C = ''<=2''" "activity_value asthma_page_C = ''none''"
    by (simp_all add: asthma_page_C_def)
  show ?thesis
    using wf bands severity_is_maximum [OF wf] by (simp add: fields)
qed

subsection \<open>Monotonicity\<close>

text \<open>
  As long as no category names an inherited property, the severity is the maximum of
  the tabulated contributions, and it does not decrease when contributions grow.
\<close>

lemma asthma_severity_tabulated:
  assumes "daytime_value doc \<notin> set objectPrototype_keys"
    and "nighttime_value doc \<notin> set objectPrototype_keys"
    and "activity_value doc \<notin> set objectPrototype_keys"
  shows "asthma_severity doc =
           Fin (real (max (max (max (spec_fev1Band (fev1_input doc))
                                    (spec_daytimeBand (daytime_value doc)))
                               (spec_nighttimeBand (nighttime_value doc)))
                          (spec_activityBand (activity_value doc))))"
    and "asthma_severity_part001 doc =
           Fin (real (max (max (max (spec_fev1Band (fev1_input doc))
                                    (spec_daytimeBand (daytime_value doc)))
                               (spec_nighttimeBand (nighttime_value doc)))
                          (spec_activityBand (activity_value doc))))"
  using assms
  by (simp_all add: asthma_severity_eq asthma_severity_part001_eq daytimeBand_spec
      nighttimeBand_spec activityBand_spec Math_max_Fin)

lemma severity_monotone_tabulated:
  assumes "daytime_value doc \<notin> set objectPrototype_keys"
    and "nighttime_value doc \<notin> set objectPrototype_keys"
    and "activity_value doc \<notin> set objectPrototype_keys"
    and "daytime_value doc' \<notin> set objectPrototype_keys"
    and "nighttime_value doc' \<notin> set objectPrototype_keys"
    and "activity_value doc' \<notin> set objectPrototype_keys"
    and "spec_fev1Band (fev1_input doc) \<le> spec_fev1Band (fev1_input doc')"
    and "spec_daytimeBand (daytime_value doc) \<le> spec_daytimeBand (daytime_value doc')"
    and "spec_nighttimeBand (nighttime_value doc) \<le> spec_nighttimeBand (nighttime_value doc')"
    and "spec_activityBand (activity_value doc) \<le> spec_activityBand (activity_value doc')"
  shows "js_ge (asthma_severity doc') (asthma_severity doc)"
    and "js_ge (asthma_severity_part001 doc') (asthma_severity_part001 doc)"
proof -
  have "max (max (max (spec_fev1Band (fev1_input doc)) (spec_daytimeBand (daytime_value doc)))
               (spec_nighttimeBand (nighttime_value doc))) (spec_activityBand (activity_value doc))
      \<le> max (max (max (spec_fev1Band (fev1_input doc')) (spec_daytimeBand (daytime_value doc')))
               (spec_nighttimeBand (nighttime_value doc'))) (spec_activityBand (activity_value doc'))"
    using assms(7-10) by (intro max.mono)
  then show "js_ge (asthma_severity doc') (asthma_severity doc)"
    and "js_ge (asthma_severity_part001 doc') (asthma_severity_part001 doc)"
    using assms(1-6) by (simp_all add: asthma_severity_tabulated)
qed

text \<open>
  Claim C5 says that the severity never decreases when the value of one contributor is
  replaced by one of a greater or equal band. The code evaluated at the input of
  Scenario C and at the same input with the nighttime value \<open>constructor\<close> in place of
  \<open><=2\<close>: both values have band 1 (the second is outside the table), the severity of
  both versions goes from 3 to \<open>NaN\<close>, and \<open>NaN\<close> is not greater than or equal to 3.
\<close>

theorem inherited_category_breaks_monotonicity:
  "nighttime_value asthma_page_C = ''<=2'' \<and>
   spec_nighttimeBand ''<=2'' = 1 \<and>
   spec_nighttimeBand ''constructor'' = 1 \<and>
   spec_nighttimeBand (nighttime_value asthma_page_C) \<le> spec_nighttimeBand ''constructor'' \<and>
   asthma_severity asthma_page_C = Fin 3 \<and>
   asthma_severity (asthma_page_C\<lparr>nighttime_value := ''constructor''\<rparr>) = NaN \<and>
   asthma_severity_part001 asthma_page_C = Fin 3 \<and>
   asthma_severity_part001 (asthma_page_C\<lparr>nighttime_value := ''constructor''\<rparr>) = NaN \<and>
   \<not> js_ge NaN (Fin 3) \<and> NaN \<noteq> Fin 3"
  by (simp add: asthma_severity_eq asthma_severity_part001_eq asthma_page_C_def
      daytimeBand_def nighttimeBand_def activityBand_def js_get_def js_or_def
      daytimeMap_def nighttimeMap_def activityMap_def objectPrototype_keys_def
      spec_fev1Band_def spec_nighttimeBand_def js_lt_def js_ge_def Math_max_def)

subsection \<open>Categories outside the tables\<close>

lemma asthma_severity_cases:
  "asthma_severity doc \<in> {NaN, Fin 1, Fin 2, Fin 3, Fin 4}"
proof -
  have f: "Fin (real (spec_fev1Band x)) \<in> {NaN, Fin 1, Fin 2, Fin 3, Fin 4}" for x
    by (simp add: spec_fev1Band_def)
  have d: "daytimeBand x \<in> {NaN, Fin 1, Fin 2, Fin 3, Fin 4}" for x
    by (cases "x \<in> set objectPrototype_keys")
      (simp_all add: inherited_band daytimeBand_spec spec_daytimeBand_def)
  have n: "nighttimeBand x \<in> {NaN, Fin 1, Fin 2, Fin 3, Fin 4}" for x
    by (cases "x \<in> set objectPrototype_keys")
      (simp_all add: inherited_band nighttimeBand_spec spec_nighttimeBand_def)
  have a: "activityBand x \<in> {NaN, Fin 1, Fin 2, Fin 3, Fin 4}" for x
    by (cases "x \<in> set objectPrototype_keys")
      (simp_all add: inherited_band activityBand_spec spec_activityBand_def)
  have m: "Math_max x y \<in> {NaN, Fin 1, Fin 2, Fin 3, Fin 4}"
    if "x \<in> {NaN, Fin 1, Fin 2, Fin 3, Fin 4}" "y \<in> {NaN, Fin 1, Fin 2, Fin 3, Fin 4}" for x y
    using that by (auto simp: Math_max_def)
  show ?thesis
    unfolding asthma_severity_eq by (intro m f d n a)
qed

lemma asthma_severity_in_range:
  assumes "daytime_value doc \<notin> set objectPrototype_keys"
    and "nighttime_value doc \<notin> set objectPrototype_keys"
    and "activity_value doc \<notin> set objectPrototype_keys"
  shows "asthma_severity doc \<in> {Fin 1, Fin 2, Fin 3, Fin 4}"
proof -
  have "asthma_severity doc \<noteq> NaN"
    using assms
    by (simp add: asthma_severity_eq daytimeBand_spec nighttimeBand_spec activityBand_spec
        Math_max_Fin)
  then show ?thesis
    using asthma_severity_cases [of doc] by auto
qed

lemma asthma_stageName_cases:
  "asthma_stageName doc \<in> {stage1_name, stage2_name, stage3_name, stage4_name}"
  "asthma_stageName_part001 doc \<in> {stage1_name, stage2_name, stage3_name, stage4_name}"
  by (simp_all add: asthma_stageName_def asthma_stageName_part001_def computeAsthmaStage_def
      computeAsthmaStage_part001_def Let_def case_prod_beta stage_default_name_def
      stage1_name_def)

lemma unrecognized_category_default:
  assumes "daytime \<notin> set [''<=2'', ''3-6'', ''daily'', ''throughout'']"
    and "daytime \<notin> set objectPrototype_keys"
  shows "daytimeBand daytime = Fin 1"
  using assms by (simp add: daytimeBand_spec spec_daytimeBand_def)

text \<open>
  Claim C4 says that a category outside its table contributes 1. The code evaluated at
  an input whose three categories are all outside their tables and whose FEV1 field is
  empty: the daytime value \<open>toString\<close> names a function inherited from
  \<open>Object.prototype\<close>, which \<open>||\<close> takes for a table entry; no error is raised, but the
  contribution is \<open>NaN\<close> and so is the severity of both versions, where the claim says 1.
\<close>

theorem inherited_category_contributes_NaN:
  "daytime_value asthma_page_inherited = ''toString'' \<and>
   ''toString'' \<notin> set [''<=2'', ''3-6'', ''daily'', ''throughout''] \<and>
   nighttime_value asthma_page_inherited \<notin> set [''<=2'', ''3-4'', ''5+'', ''often''] \<and>
   activity_value asthma_page_inherited \<notin> set [''none'', ''minor'', ''some'', ''extreme''] \<and>
   fev1_input asthma_page_inherited = NaN \<and>
   js_get daytimeMap ''toString'' = Builtin \<and>
   daytimeBand ''toString'' = NaN \<and>
   nighttimeBand (nighttime_value asthma_page_inherited) = Fin 1 \<and>
   activityBand (activity_value asthma_page_inherited) = Fin 1 \<and>
   asthma_severity asthma_page_inherited = NaN \<and>
   asthma_severity_part001 asthma_page_inherited = NaN"
  by (simp add: asthma_severity_eq asthma_severity_part001_eq asthma_page_inherited_def
      daytimeBand_def nighttimeBand_def activityBand_def js_get_def js_or_def
      daytimeMap_def nighttimeMap_def activityMap_def objectPrototype_keys_def
      spec_fev1Band_def js_lt_def js_ge_def Math_max_def)

text \<open>
  Claim C9 says that the severity is always one of 1, 2, 3, 4 and that the default branch
  of the switch is never taken. The code evaluated at an input whose nighttime value is
  \<open>constructor\<close>, the other fields being in range: the severity of both versions is
  \<open>NaN\<close>, no case of the switch matches, and the default branch assigns its own
  description (with the name of stage 1).
\<close>

theorem inherited_category_reaches_default:
  "asthma_severity asthma_page_constructor = NaN \<and>
   asthma_severity asthma_page_constructor \<notin> {Fin 1, Fin 2, Fin 3, Fin 4} \<and>
   fst (computeAsthmaStage asthma_page_constructor) =
     \<lparr>severity = NaN, stageName = stage_default_name,
      stageDescription = stage_default_description\<rparr> \<and>
   fst (computeAsthmaStage_part001 asthma_page_constructor) =
     \<lparr>severity = NaN, stageName = stage_default_name,
      stageDescription = stage_default_description\<rparr> \<and>
   stage_default_description \<notin>
     {stage1_description, stage2_description, stage3_description, stage4_description} \<and>
   stage_default_name = ''Intermittent (Mild) Asthma''"
proof -
  have s: "asthma_severity asthma_page_constructor = NaN"
    by (simp add: asthma_severity_eq asthma_page_constructor_def
      daytimeBand_def nighttimeBand_def activityBand_def js_get_def js_or_def
      daytimeMap_def nighttimeMap_def activityMap_def objectPrototype_keys_def
      spec_fev1Band_def js_lt_def js_ge_def Math_max_def)
  have s': "asthma_severity_part001 asthma_page_constructor = NaN"
    using s by (simp add: asthma_severity_eq asthma_severity_part001_eq)
  have l: "fst (computeAsthmaStage asthma_page_constructor) =
     \<lparr>severity = NaN, stageName = stage_default_name,
      stageDescription = stage_default_description\<rparr>"
    using s
    by (simp add: asthma_severity_def computeAsthmaStage_def Let_def case_prod_beta
        split del: if_split cong del: if_weak_cong)
  have l': "fst (computeAsthmaStage_part001 asthma_page_constructor) =
     \<lparr>severity = NaN, stageName = stage_default_name,
      stageDescription = stage_default_description\<rparr>"
    using s'
    by (simp add: asthma_severity_part001_def computeAsthmaStage_part001_def Let_def case_prod_beta
        split del: if_split cong del: if_weak_cong)
  have d: "stage_default_description \<notin>
     {stage1_description, stage2_description, stage3_description, stage4_description}"
    by (simp add: stage_default_description_def stage1_description_def stage2_description_def
        stage3_description_def stage4_description_def)
  show ?thesis
    using s l l' d by (simp add: stage_default_name_def)
qed

section \<open>The two versions of each classifier\<close>

lemma copd_versions_agree:
  "copd_grade_part000 doc = copd_grade doc \<and> copd_group_part000 doc = copd_group doc"
proof (cases "copd_well_formed doc")
  case True
  then show ?thesis
    by (simp add: copd_grade_eq copd_grade_part000_eq copd_group_eq copd_group_part000_eq)
next
  case False
  then show ?thesis
    by (simp add: computeCOPD_rejected computeCOPD_part000_rejected copd_grade_def copd_group_def
        copd_grade_part000_def copd_group_part000_def)
qed

lemma copd_locals_agree:
  "map_option copd_locals.truncate (fst (computeCOPD_part000 doc)) = fst (computeCOPD doc)"
proof (cases "copd_well_formed doc")
  case True
  then show ?thesis
    using copd_rejected_iff [of doc]
    by (simp add: computeCOPD_def computeCOPD_part000_def Let_def case_prod_beta
        copd_locals.truncate_def split del: if_split cong del: if_weak_cong)
next
  case False
  then show ?thesis
    by (simp add: computeCOPD_rejected computeCOPD_part000_rejected)
qed

lemma asthma_locals_agree:
  "fst (computeAsthmaStage_part001 doc) = fst (computeAsthmaStage doc)"
  by (simp add: computeAsthmaStage_def computeAsthmaStage_part001_def Let_def case_prod_beta
      split del: if_split cong del: if_weak_cong)

text \<open>
  Claim C10. On every page the two versions of \<open>computeCOPD\<close> either both reject the
  input or assign the same GOLD grade and the same ABE group (and the same two
  descriptions), and the two versions of \<open>computeAsthmaStage\<close> compute the same severity
  and the same stage name (and the same description).
\<close>

theorem versions_classify_alike:
  "copd_grade_part000 doc = copd_grade doc \<and>
   copd_group_part000 doc = copd_group doc \<and>
   map_option copd_locals.truncate (fst (computeCOPD_part000 doc)) = fst (computeCOPD doc) \<and>
   asthma_severity_part001 adoc = asthma_severity adoc \<and>
   asthma_stageName_part001 adoc = asthma_stageName adoc \<and>
   fst (computeAsthmaStage_part001 adoc) = fst (computeAsthmaStage adoc)"
  using copd_versions_agree [of doc] copd_locals_agree [of doc] asthma_locals_agree [of adoc]
  by (simp add: asthma_severity_def asthma_severity_part001_def asthma_stageName_def
      asthma_stageName_part001_def)

end
